theory Spec2Isabelle
  imports Complex_Main "HOL-Library.Multiset" "HOL-Library.Product_Lexorder"
begin

section \<open>Numbers: float results that are not finite\<close>

text \<open>
  Amounts and KPI values are IEEE doubles in the program. The model computes with exact
  reals, so rounding is not part of it. The results of a numpy division that are not
  finite are kept: a float64 division by zero does not raise, it yields \<open>inf\<close>,
  \<open>-inf\<close> or \<open>nan\<close>.
\<close>

datatype fnum = Fin real | PosInf | NegInf | NaN

definition np_div :: "real \<Rightarrow> real \<Rightarrow> fnum" where
  "np_div a b =
     (if b \<noteq> 0 then Fin (a / b)
      else if 0 < a then PosInf
      else if a < 0 then NegInf
      else NaN)"

fun times100 :: "fnum \<Rightarrow> fnum" where
  "times100 (Fin x) = Fin (x * 100)"
| "times100 PosInf = PosInf"
| "times100 NegInf = NegInf"
| "times100 NaN = NaN"

fun fabs :: "fnum \<Rightarrow> fnum" where
  "fabs (Fin x) = Fin \<bar>x\<bar>"
| "fabs PosInf = PosInf"
| "fabs NegInf = PosInf"
| "fabs NaN = NaN"

text \<open>\<open>x > t\<close> for a float \<open>x\<close> and a finite \<open>t\<close>: every comparison with \<open>nan\<close> is false.\<close>

fun fgt :: "fnum \<Rightarrow> real \<Rightarrow> bool" where
  "fgt (Fin x) t = (t < x)"
| "fgt PosInf t = True"
| "fgt NegInf t = False"
| "fgt NaN t = False"

section \<open>Configuration\<close>

text \<open>
  \<open>config.get('kpi_thresholds', {})\<close> of \<open>InsightGenerator.__init__\<close>: the two keys the
  insight generator reads, each present or not.
\<close>

record thresholds =
  revenue_anomaly_percentage :: "real option"
  trend_detection_periods :: "int option"

section \<open>Trend classifier (\<open>InsightGenerator.detect_trends\<close>)\<close>

text \<open>A row of \<open>KPI_RESULTS\<close> for one KPI name, as the queries select it: date and value.\<close>

type_synonym kpi_row = "int \<times> real"

text \<open>
  \<open>ORDER BY KPI_DATE DESC FETCH FIRST :periods ROWS ONLY\<close>: the most recent rows first,
  at most \<open>periods\<close> of them (none for a count that is not positive).
\<close>

definition order_by_date_desc :: "kpi_row list \<Rightarrow> kpi_row list" where
  "order_by_date_desc rows = rev (sort_key fst rows)"

definition fetch_first :: "int \<Rightarrow> 'a list \<Rightarrow> 'a list" where
  "fetch_first n xs = take (nat n) xs"

datatype direction = Increasing | Decreasing

text \<open>
  The three strings \<open>detect_trends\<close> returns: \<open>"Insufficient data for trend analysis"\<close>,
  \<open>"Trend: <direction> (<percent>% change over <periods> periods)"\<close> and
  \<open>"No clear trend detected"\<close>. The percentage is kept as a number, not as its two-decimal
  rendering.
\<close>

datatype trend_result =
    InsufficientData
  | Trend direction fnum int
  | NoClearTrend

definition trend_periods :: "thresholds \<Rightarrow> int option \<Rightarrow> int" where
  "trend_periods th periods =
     (case periods of
        Some p \<Rightarrow> p
      | None \<Rightarrow> (case trend_detection_periods th of Some p \<Rightarrow> p | None \<Rightarrow> 3))"

text \<open>The values the classifier looks at: the fetched rows, sorted by date ascending.\<close>

definition trend_window :: "kpi_row list \<Rightarrow> int \<Rightarrow> real list" where
  "trend_window rows p = map snd (sort_key fst (fetch_first p (order_by_date_desc rows)))"

definition detect_trends :: "thresholds \<Rightarrow> kpi_row list \<Rightarrow> int option \<Rightarrow> trend_result" where
  "detect_trends th rows periods =
     (let p = trend_periods th periods;
          results = fetch_first p (order_by_date_desc rows)
      in if int (length results) < p then InsufficientData
         else
           let vals = map snd (sort_key fst results)
           in if 2 \<le> length vals
              then Trend (if hd vals < last vals then Increasing else Decreasing)
                         (times100 (np_div (last vals - hd vals) (hd vals))) p
              else NoClearTrend)"

section \<open>Aggregation (\<open>streamlit_app.py\<close>, \<open>demo_mode.py\<close>)\<close>

text \<open>
  A sales transaction with the columns of the sales schema. \<open>REGION_ID\<close> and
  \<open>CUSTOMER_ID\<close> may be missing (\<open>NaN\<close>); the date type is left open, since the loader
  stores what \<open>to_datetime\<close> and \<open>fillna\<close> left in that column. An amount is a number: a
  missing amount adds nothing to a sum of pandas, as an amount of 0 does.
\<close>

record 'd transaction =
  transaction_date :: 'd
  customer_id :: "int option"
  product_id :: "int option"
  quantity :: real
  unit_price :: real
  total_amount :: real
  region_id :: "int option"
  discount_percentage :: real

subsection \<open>\<open>groupby(key)[value].sum()\<close>\<close>

text \<open>
  One bucket per distinct key, keys ascending, the bucket's value the sum of its rows.
  With the default \<open>dropna=True\<close> the rows whose key is missing are dropped first.
\<close>

definition group_sum :: "('k \<times> real) list \<Rightarrow> 'k \<Rightarrow> real" where
  "group_sum rows k = sum_list (map snd (filter (\<lambda>r. fst r = k) rows))"

definition groupby_sum :: "('k::linorder \<times> real) list \<Rightarrow> ('k \<times> real) list" where
  "groupby_sum rows = map (\<lambda>k. (k, group_sum rows k)) (sort (remdups (map fst rows)))"

fun dropna_key :: "('k option \<times> 'v) list \<Rightarrow> ('k \<times> 'v) list" where
  "dropna_key [] = []"
| "dropna_key ((None, v) # rows) = dropna_key rows"
| "dropna_key ((Some k, v) # rows) = (k, v) # dropna_key rows"

subsection \<open>\<open>compute_kpis\<close>: the totals\<close>

definition total_revenue :: "'d transaction list \<Rightarrow> real" where
  "total_revenue df = sum_list (map total_amount df)"


subsection \<open>\<open>revenue_by_region\<close> of the dashboard\<close>


subsection \<open>The daily aggregate\<close>

text \<open>
  \<open>tmp.groupby(date_col)[value_col].sum()\<close> of the dashboard's \<open>detect_outliers\<close>: the
  per-day series, one bucket per value of the date column (the dashboard does not round
  a timestamp to its day). \<open>daily_revenue\<close> is that series for the date and the amount of
  the sales.
\<close>

definition daily_aggregate :: "(int \<times> real) list \<Rightarrow> (int \<times> real) list" where
  "daily_aggregate rows = groupby_sum rows"


subsection \<open>\<open>DemoDataGenerator.generate_kpi_results\<close>\<close>

datatype kpi_name = REVENUE_BY_REGION | MONTHLY_REVENUE_TREND | TOP_CUSTOMERS | AVG_TRANSACTION_VALUE

record kpi_result =
  KPI_NAME :: kpi_name
  KPI_VALUE :: real
  KPI_DATE :: int
  REGION_ID :: "int option"
  CALCULATION_DATE :: int



subsection \<open>Top customers\<close>

text \<open>
  \<open>sort_values(by, ascending=False)\<close> sorts with numpy's default \<open>quicksort\<close>, which is
  not a stable sort: pandas promises the rows in descending order of the key and no order
  among rows with equal keys. The sort is a parameter of the model (it takes the key and
  the rows), and \<open>sorts_descending\<close> is what pandas promises of it.
\<close>

type_synonym 'a sorter = "('a \<Rightarrow> real) \<Rightarrow> 'a list \<Rightarrow> 'a list"

definition sorts_descending :: "'a sorter \<Rightarrow> bool" where
  "sorts_descending srt =
     (\<forall>key xs. mset (srt key xs) = mset xs \<and>
                sorted_wrt (\<lambda>a b. key b \<le> key a) (srt key xs))"


text \<open>\<open>DataFrame.head(n)\<close>: the first \<open>n\<close> rows; for a negative \<open>n\<close>, all but the last \<open>-n\<close>.\<close>

definition head :: "int \<Rightarrow> 'a list \<Rightarrow> 'a list" where
  "head n xs = (if 0 \<le> n then take (nat n) xs else take (length xs - nat (- n)) xs)"

definition customer_revenue :: "'d transaction list \<Rightarrow> (int \<times> real) list" where
  "customer_revenue df = groupby_sum (dropna_key (map (\<lambda>t. (customer_id t, total_amount t)) df))"

definition top_customers ::
  "(int \<times> real) sorter \<Rightarrow> 'd transaction list \<Rightarrow> int \<Rightarrow> (int \<times> real) list" where
  "top_customers srt df n = head n (srt snd (customer_revenue df))"

text \<open>
  The demo generator: \<open>groupby('CUSTOMER_ID')['TOTAL_AMOUNT'].sum().nlargest(10)\<close>.
  \<open>nlargest\<close> (with \<open>keep='first'\<close>) returns the largest values in descending order and
  takes equal values in their order of appearance.
\<close>

definition stable_descending :: "'a sorter" where
  "stable_descending key xs = sort_key (\<lambda>r. - key r) xs"



section \<open>Anomaly detector (\<open>InsightGenerator.detect_outliers\<close>)\<close>

definition mean :: "real list \<Rightarrow> real" where
  "mean xs = sum_list xs / real (length xs)"




section \<open>Frames of cells\<close>

text \<open>
  A cell of a frame read from a file: a number, a text, a timestamp or a missing value
  (\<open>NaN\<close>, \<open>None\<close>, \<open>NaT\<close>). A frame is its columns in order, each a label with its
  cells; the columns of a frame have one length, and a column that is shorter reads as
  missing there.
\<close>

datatype cell = Num real | Text string | Stamp int | Null

type_synonym dataframe = "(string \<times> cell list) list"

definition columns :: "dataframe \<Rightarrow> string list" where
  "columns df = map fst df"

definition len :: "dataframe \<Rightarrow> nat" where
  "len df = (case df of [] \<Rightarrow> 0 | (c, cells) # _ \<Rightarrow> length cells)"

datatype py_error =
    FileNotFoundError
  | MissingRequiredColumns "string list"
  | ValueError
  | TypeError
  | KeyError
  | DatabaseError

text \<open>
  \<open>pd.to_datetime\<close> parses a cell with a library parser, a parameter \<open>parse\<close> of the
  model: a timestamp, or \<open>None\<close> for a cell that is no date. A missing cell is \<open>NaT\<close>.
  With \<open>errors="coerce"\<close> a cell that is no date is \<open>NaT\<close> as well.
\<close>

definition to_datetime_coerce :: "(cell \<Rightarrow> int option) \<Rightarrow> cell \<Rightarrow> int option" where
  "to_datetime_coerce parse c = (case c of Null \<Rightarrow> None | _ \<Rightarrow> parse c)"

section \<open>Outliers of the daily aggregate (\<open>detect_outliers\<close> of the dashboard)\<close>

text \<open>\<open>std(ddof=0)\<close>: the population standard deviation.\<close>

definition std0 :: "real list \<Rightarrow> real" where
  "std0 xs = sqrt (sum_list (map (\<lambda>x. (x - mean xs)\<^sup>2) xs) / real (length xs))"

record outlier_row =
  bucket_date :: int
  bucket_value :: real
  Z_SCORE :: fnum
  IS_OUTLIER :: bool

text \<open>Python's \<open>not s\<close> for an optional string: \<open>None\<close> and the empty string are false.\<close>

definition falsy :: "string option \<Rightarrow> bool" where
  "falsy s = (s = None \<or> s = Some [])"

text \<open>\<open>dropna(subset=[date_col, value_col])\<close> on the two selected columns.\<close>

fun dropna_rows :: "(int option \<times> cell) list \<Rightarrow> (int \<times> cell) list" where
  "dropna_rows [] = []"
| "dropna_rows ((None, v) # rows) = dropna_rows rows"
| "dropna_rows ((Some d, Null) # rows) = dropna_rows rows"
| "dropna_rows ((Some d, v) # rows) = (d, v) # dropna_rows rows"

text \<open>
  The values must be numbers for the sums, the mean and the deviation. On values that are
  not, pandas raises \<open>TypeError\<close> in one of them (or, for texts in fewer than three
  groups, concatenates them and returns the empty frame): the model has one error for
  both, and the result of \<open>detect_outliers\<close> is the empty frame either way.
\<close>

fun numeric_rows :: "(int \<times> cell) list \<Rightarrow> py_error + (int \<times> real) list" where
  "numeric_rows [] = Inr []"
| "numeric_rows ((d, Num x) # rows) =
     (case numeric_rows rows of Inl e \<Rightarrow> Inl e | Inr rs \<Rightarrow> Inr ((d, x) # rs))"
| "numeric_rows ((d, v) # rows) = Inl TypeError"

text \<open>
  The aggregated series: the two columns, the dates parsed, incomplete rows dropped, the
  values summed per date. Selecting one column twice gives a frame on which
  \<open>to_datetime\<close> raises \<open>ValueError\<close>.
\<close>

definition aggregated_series ::
  "(cell \<Rightarrow> int option) \<Rightarrow> dataframe \<Rightarrow> string \<Rightarrow> string \<Rightarrow> py_error + (int \<times> real) list" where
  "aggregated_series parse df date_col value_col =
     (case (map_of df date_col, map_of df value_col) of
        (Some dates, Some vals) \<Rightarrow>
          if date_col = value_col then Inl ValueError
          else
            (case numeric_rows (dropna_rows (zip (map (to_datetime_coerce parse) dates) vals)) of
               Inl e \<Rightarrow> Inl e
             | Inr rows \<Rightarrow> Inr (daily_aggregate rows))
      | _ \<Rightarrow> Inl KeyError)"

definition score :: "real list \<Rightarrow> real \<Rightarrow> int \<times> real \<Rightarrow> outlier_row" where
  "score vals threshold r =
     (let z = np_div (snd r - mean vals) (std0 vals)
      in \<lparr>bucket_date = fst r, bucket_value = snd r, Z_SCORE = z,
          IS_OUTLIER = fgt (fabs z) threshold\<rparr>)"

text \<open>The body of the \<open>try\<close>.\<close>

definition detect_outliers_try ::
  "(cell \<Rightarrow> int option) \<Rightarrow> outlier_row sorter \<Rightarrow> dataframe \<Rightarrow> string \<Rightarrow> string \<Rightarrow> real
     \<Rightarrow> py_error + outlier_row list" where
  "detect_outliers_try parse srt df date_col value_col threshold =
     (case aggregated_series parse df date_col value_col of
        Inl e \<Rightarrow> Inl e
      | Inr revenue \<Rightarrow>
          if length revenue < 3 then Inr []
          else Inr (srt bucket_value
                      (filter IS_OUTLIER (map (score (map snd revenue) threshold) revenue))))"

text \<open>
  The result is the rows of the frame returned; \<open>pd.DataFrame()\<close> and a selection
  without rows are both the empty list (the caller reads \<open>len(outliers)\<close> only).
\<close>

definition default_threshold :: "real option \<Rightarrow> real" where
  "default_threshold threshold = (case threshold of Some t \<Rightarrow> t | None \<Rightarrow> 5 / 2)"

definition detect_outliers ::
  "(cell \<Rightarrow> int option) \<Rightarrow> outlier_row sorter \<Rightarrow> dataframe \<Rightarrow> string option \<Rightarrow> string option
     \<Rightarrow> real option \<Rightarrow> py_error + outlier_row list" where
  "detect_outliers parse srt df date_col value_col threshold =
     (if falsy date_col \<or> falsy value_col then Inr []
      else
        case (date_col, value_col) of
          (Some dc, Some vc) \<Rightarrow>
            if dc \<notin> set (columns df) \<or> vc \<notin> set (columns df) then Inr []
            else (case detect_outliers_try parse srt df dc vc (default_threshold threshold) of
                    Inl e \<Rightarrow> Inr []
                  | Inr rows \<Rightarrow> Inr rows)
        | _ \<Rightarrow> Inr [])"

section \<open>Loader (\<open>CSVLoader.load_sales_data\<close>)\<close>

text \<open>
  The library parsers are parameters: \<open>pd.to_datetime\<close> on a cell, and Python's \<open>int\<close>
  and \<open>float\<close> on a string; each gives \<open>None\<close> where the library raises.
\<close>

record pylib =
  parse_date :: "cell \<Rightarrow> int option"
  parse_int :: "string \<Rightarrow> int option"
  parse_float :: "string \<Rightarrow> real option"

text \<open>
  The database as the loader meets it: whether \<open>connect\<close> succeeds, and whether
  \<open>executemany\<close> with \<open>commit\<close> accepts a batch.
\<close>

record database =
  connect_ok :: bool
  executemany_ok :: "cell transaction list \<Rightarrow> bool"

text \<open>
  What the loader changes: the committed rows of \<open>SALES_TRANSACTIONS\<close>, the files of the
  input directory (a name and the frame \<open>read_csv\<close> reads from it) and the archive. The
  file system does not fail in the model.
\<close>

record world =
  SALES_TRANSACTIONS :: "cell transaction list"
  input_data :: "string \<rightharpoonup> dataframe"
  archive_data :: "(string \<times> dataframe) list"

text \<open>The columns of a frame have one length, the number of its rows.\<close>

definition frame :: "dataframe \<Rightarrow> bool" where
  "frame df = (\<forall>col \<in> set df. length (snd col) = len df)"

definition required_columns :: "string list" where
  "required_columns =
     [''transaction_date'', ''customer_id'', ''product_id'', ''quantity'', ''unit_price'',
      ''total_amount'']"

text \<open>The next step runs on the value of a step that did not raise.\<close>

definition raising :: "'e + 'a \<Rightarrow> ('a \<Rightarrow> 'e + 'b) \<Rightarrow> 'e + 'b" where
  "raising r f = (case r of Inl e \<Rightarrow> Inl e | Inr x \<Rightarrow> f x)"

text \<open>A loop that stops at the first exception.\<close>

fun traverse :: "('a \<Rightarrow> 'e + 'b) \<Rightarrow> 'a list \<Rightarrow> 'e + 'b list" where
  "traverse f [] = Inr []"
| "traverse f (x # xs) =
     (case f x of
        Inl e \<Rightarrow> Inl e
      | Inr y \<Rightarrow> (case traverse f xs of Inl e \<Rightarrow> Inl e | Inr ys \<Rightarrow> Inr (y # ys)))"

text \<open>\<open>pd.to_datetime\<close> with the default \<open>errors="raise"\<close>.\<close>

definition to_datetime_raise :: "(cell \<Rightarrow> int option) \<Rightarrow> cell \<Rightarrow> py_error + cell" where
  "to_datetime_raise parse c =
     (case c of
        Null \<Rightarrow> Inr Null
      | _ \<Rightarrow> (case parse c of Some ts \<Rightarrow> Inr (Stamp ts) | None \<Rightarrow> Inl ValueError))"

text \<open>\<open>df.fillna(0)\<close>: every missing cell of every column becomes 0.\<close>

definition fill0 :: "cell \<Rightarrow> cell" where
  "fill0 c = (case c of Null \<Rightarrow> Num 0 | _ \<Rightarrow> c)"

definition fillna0 :: "dataframe \<Rightarrow> dataframe" where
  "fillna0 df = map (\<lambda>(name, cells). (name, map fill0 cells)) df"

text \<open>The two cleaning steps: the date column parsed, then the missing cells filled.\<close>

definition clean :: "pylib \<Rightarrow> dataframe \<Rightarrow> py_error + dataframe" where
  "clean lib df =
     (case map_of df ''transaction_date'' of
        None \<Rightarrow> Inl KeyError
      | Some cells \<Rightarrow>
          (case traverse (to_datetime_raise (parse_date lib)) cells of
             Inl e \<Rightarrow> Inl e
           | Inr stamps \<Rightarrow>
               Inr (fillna0 (map (\<lambda>(name, cs). if name = ''transaction_date''
                                                 then (name, stamps) else (name, cs)) df))))"

text \<open>
  Python's \<open>int\<close> and \<open>float\<close> on a cell. \<open>int\<close> of a float truncates towards zero and
  raises on \<open>nan\<close>; \<open>float\<close> of \<open>nan\<close> is \<open>nan\<close>, which the reals of the model do not have:
  it reads as 0 there, and no cell is missing after \<open>fillna(0)\<close>.
\<close>

definition trunc :: "real \<Rightarrow> int" where
  "trunc x = (if 0 \<le> x then \<lfloor>x\<rfloor> else \<lceil>x\<rceil>)"

fun py_int :: "pylib \<Rightarrow> cell \<Rightarrow> py_error + int" where
  "py_int lib (Num x) = Inr (trunc x)"
| "py_int lib (Text s) = (case parse_int lib s of Some i \<Rightarrow> Inr i | None \<Rightarrow> Inl ValueError)"
| "py_int lib (Stamp ts) = Inl TypeError"
| "py_int lib Null = Inl ValueError"

fun py_float :: "pylib \<Rightarrow> cell \<Rightarrow> py_error + real" where
  "py_float lib (Num x) = Inr x"
| "py_float lib (Text s) = (case parse_float lib s of Some x \<Rightarrow> Inr x | None \<Rightarrow> Inl ValueError)"
| "py_float lib (Stamp ts) = Inl TypeError"
| "py_float lib Null = Inr 0"

text \<open>A row of \<open>iterrows\<close>: the cell of every column at one position.\<close>

definition cell_at :: "cell list \<Rightarrow> nat \<Rightarrow> cell" where
  "cell_at cells i = (if i < length cells then cells ! i else Null)"

definition row_at :: "dataframe \<Rightarrow> nat \<Rightarrow> (string \<rightharpoonup> cell)" where
  "row_at df i = map_of (map (\<lambda>(name, cells). (name, cell_at cells i)) df)"

text \<open>\<open>row[col]\<close> raises \<open>KeyError\<close> for a column the frame does not have.\<close>

definition row_item :: "(string \<rightharpoonup> cell) \<Rightarrow> string \<Rightarrow> py_error + cell" where
  "row_item row col = (case row col of None \<Rightarrow> Inl KeyError | Some c \<Rightarrow> Inr c)"

text \<open>
  \<open>int(row.get('region_id', 0)) if pd.notna(row.get('region_id')) else None\<close>:
  \<open>row.get('region_id')\<close> is \<open>None\<close> when the frame has no such column.
\<close>

definition region_value :: "pylib \<Rightarrow> (string \<rightharpoonup> cell) \<Rightarrow> py_error + int option" where
  "region_value lib row =
     (case row ''region_id'' of
        None \<Rightarrow> Inr None
      | Some Null \<Rightarrow> Inr None
      | Some c \<Rightarrow> (case py_int lib c of Inl e \<Rightarrow> Inl e | Inr i \<Rightarrow> Inr (Some i)))"

text \<open>\<open>float(row.get('discount_percentage', 0))\<close>.\<close>

definition discount_value :: "pylib \<Rightarrow> (string \<rightharpoonup> cell) \<Rightarrow> py_error + real" where
  "discount_value lib row =
     (case row ''discount_percentage'' of None \<Rightarrow> Inr 0 | Some c \<Rightarrow> py_float lib c)"

text \<open>One tuple of the batch; the fields are evaluated in the order of the source.\<close>

definition data_tuple :: "pylib \<Rightarrow> (string \<rightharpoonup> cell) \<Rightarrow> py_error + cell transaction" where
  "data_tuple lib row =
     raising (row_item row ''transaction_date'') (\<lambda>d.
     raising (row_item row ''customer_id'') (\<lambda>cc. raising (py_int lib cc) (\<lambda>c.
     raising (row_item row ''product_id'') (\<lambda>pc. raising (py_int lib pc) (\<lambda>p.
     raising (row_item row ''quantity'') (\<lambda>qc. raising (py_float lib qc) (\<lambda>q.
     raising (row_item row ''unit_price'') (\<lambda>uc. raising (py_float lib uc) (\<lambda>u.
     raising (row_item row ''total_amount'') (\<lambda>tc. raising (py_float lib tc) (\<lambda>t.
     raising (region_value lib row) (\<lambda>r.
     raising (discount_value lib row) (\<lambda>dp.
       Inr \<lparr>transaction_date = d, customer_id = Some c, product_id = Some p, quantity = q,
            unit_price = u, total_amount = t, region_id = r,
            discount_percentage = dp\<rparr>)))))))))))))"

definition data_tuples :: "pylib \<Rightarrow> dataframe \<Rightarrow> py_error + cell transaction list" where
  "data_tuples lib df = traverse (\<lambda>i. data_tuple lib (row_at df i)) [0..<len df]"

text \<open>
  The load. An exception leaves the world as it was: nothing is written before the batch
  insert, and a batch that fails is rolled back.
\<close>

definition load_sales_data ::
  "pylib \<Rightarrow> database \<Rightarrow> string \<Rightarrow> world \<Rightarrow> (py_error + nat) \<times> world" where
  "load_sales_data lib db csv_file w =
     (case input_data w csv_file of
        None \<Rightarrow> (Inl FileNotFoundError, w)
      | Some df \<Rightarrow>
          let missing_columns = filter (\<lambda>col. col \<notin> set (columns df)) required_columns
          in if missing_columns \<noteq> [] then (Inl (MissingRequiredColumns missing_columns), w)
             else
               (case clean lib df of
                  Inl e \<Rightarrow> (Inl e, w)
                | Inr cleaned \<Rightarrow>
                    if \<not> connect_ok db then (Inl DatabaseError, w)
                    else
                      (case data_tuples lib cleaned of
                         Inl e \<Rightarrow> (Inl e, w)
                       | Inr tuples \<Rightarrow>
                           if \<not> executemany_ok db tuples then (Inl DatabaseError, w)
                           else
                             (Inr (len cleaned),
                              w\<lparr>SALES_TRANSACTIONS := SALES_TRANSACTIONS w @ tuples,
                                input_data := (input_data w)(csv_file := None),
                                archive_data := archive_data w @ [(csv_file, df)]\<rparr>))))"

text \<open>
  The grouping by region with the default \<open>dropna=True\<close>
  (\<open>sales_df.groupby('REGION_ID')['TOTAL_AMOUNT'].sum()\<close> of the demo connector).
\<close>

definition region_revenue :: "'d transaction list \<Rightarrow> (int \<times> real) list" where
  "region_revenue sales_df =
     groupby_sum (dropna_key (map (\<lambda>t. (region_id t, total_amount t)) sales_df))"

section \<open>KPI calculation (\<open>KPICalculator.calculate_all_kpis\<close>)\<close>

text \<open>The five procedures of \<open>PKG_KPI_CALCULATIONS\<close>, one per KPI family.\<close>

datatype kpi_procedure =
    CALC_REVENUE_BY_REGION
  | CALC_MONTHLY_REVENUE_TREND
  | CALC_TOP_CUSTOMERS
  | CALC_PRODUCT_PERFORMANCE
  | CALC_AVG_TRANSACTION_VALUE

text \<open>What the calculator logs: a family is being calculated, all are done, or the error.\<close>

datatype log_entry = Calculating kpi_procedure | AllCalculated | ErrorCalculating

text \<open>
  The procedures are PL/SQL and not part of the sources: \<open>callproc\<close> is a parameter. Given
  the procedure, its arguments and the rows of \<open>KPI_RESULTS\<close> the connection sees, it gives
  the rows the procedure wrote and whether it returned (\<open>False\<close>: it raised, perhaps after
  some writes). \<open>commit_ok\<close> tells whether the commit after a procedure succeeds.
\<close>

record kpi_database =
  connects :: bool
  callproc :: "kpi_procedure \<Rightarrow> int list \<Rightarrow> kpi_result list \<Rightarrow> kpi_result list \<times> bool"
  commit_ok :: "kpi_procedure \<Rightarrow> bool"

text \<open>
  The table \<open>KPI_RESULTS\<close> as committed, the writes of the open transaction, and the log.
  A new connection has no uncommitted writes.
\<close>

record session =
  KPI_RESULTS :: "kpi_result list"
  uncommitted :: "kpi_result list"
  logged :: "log_entry list"

text \<open>One family: the log line, \<open>callproc\<close>, \<open>commit\<close>. An exception ends it.\<close>

definition call_and_commit ::
  "kpi_database \<Rightarrow> kpi_procedure \<times> int list \<Rightarrow> session \<Rightarrow> (py_error + unit) \<times> session" where
  "call_and_commit db step s =
     (let s1 = s\<lparr>logged := logged s @ [Calculating (fst step)]\<rparr>;
          out = callproc db (fst step) (snd step) (KPI_RESULTS s1 @ uncommitted s1);
          s2 = s1\<lparr>uncommitted := uncommitted s1 @ fst out\<rparr>
      in if \<not> snd out then (Inl DatabaseError, s2)
         else if \<not> commit_ok db (fst step) then (Inl DatabaseError, s2)
         else (Inr (), s2\<lparr>KPI_RESULTS := KPI_RESULTS s2 @ uncommitted s2, uncommitted := []\<rparr>))"

text \<open>The families in the order of the source; the first exception skips the rest.\<close>

fun run_steps ::
  "kpi_database \<Rightarrow> (kpi_procedure \<times> int list) list \<Rightarrow> session \<Rightarrow> (py_error + unit) \<times> session" where
  "run_steps db [] s = (Inr (), s)"
| "run_steps db (step # rest) s =
     (case call_and_commit db step s of
        (Inl e, s') \<Rightarrow> (Inl e, s')
      | (Inr u, s') \<Rightarrow> run_steps db rest s')"

definition kpi_steps :: "int \<Rightarrow> int \<Rightarrow> int \<Rightarrow> (kpi_procedure \<times> int list) list" where
  "kpi_steps start_date end_date top_n =
     [(CALC_REVENUE_BY_REGION, [start_date, end_date]),
      (CALC_MONTHLY_REVENUE_TREND, [start_date, end_date]),
      (CALC_TOP_CUSTOMERS, [start_date, end_date, top_n]),
      (CALC_PRODUCT_PERFORMANCE, [start_date, end_date]),
      (CALC_AVG_TRANSACTION_VALUE, [start_date, end_date])]"

definition days30 :: int where
  "days30 = 30 * 86400"

text \<open>
  \<open>calculate_all_kpis\<close>: the defaults of the window, the connection, the five families in
  the \<open>try\<close>; the \<open>except\<close> logs the error, rolls the open transaction back and raises
  again. \<open>top_n\<close> is 10 when the caller does not give it.
\<close>

definition calculate_all_kpis ::
  "kpi_database \<Rightarrow> int \<Rightarrow> int option \<Rightarrow> int option \<Rightarrow> int \<Rightarrow> session
     \<Rightarrow> (py_error + unit) \<times> session" where
  "calculate_all_kpis db now start_date end_date top_n s =
     (let start = (case start_date of None \<Rightarrow> now - days30 | Some d \<Rightarrow> d);
          end_d = (case end_date of None \<Rightarrow> now | Some d \<Rightarrow> d)
      in if \<not> connects db then (Inl DatabaseError, s)
         else
           (case run_steps db (kpi_steps start end_d top_n) s of
              (Inr u, s') \<Rightarrow> (Inr (), s'\<lparr>logged := logged s' @ [AllCalculated]\<rparr>)
            | (Inl e, s') \<Rightarrow>
                (Inl e, s'\<lparr>logged := logged s' @ [ErrorCalculating], uncommitted := []\<rparr>)))"

section \<open>The pipeline (\<open>main\<close>)\<close>

text \<open>How a run ends: normally, or with \<open>sys.exit(1)\<close> after an exception of a stage.\<close>

datatype run_state = Done | Failed

text \<open>
  The stages other than the KPI calculation are parameters: the load of a file, the
  validation, the charts and the reports, each on the session and raising or not.
\<close>

record stages =
  load_stage :: "string \<Rightarrow> session \<Rightarrow> (py_error + unit) \<times> session"
  validate_all :: "session \<Rightarrow> (py_error + unit) \<times> session"
  generate_all_charts :: "session \<Rightarrow> (py_error + unit) \<times> session"
  generate_all_reports :: "session \<Rightarrow> (py_error + unit) \<times> session"

text \<open>The next stage runs when the stage before did not raise.\<close>

definition and_then ::
  "(py_error + unit) \<times> 's \<Rightarrow> ('s \<Rightarrow> (py_error + unit) \<times> 's) \<Rightarrow> (py_error + unit) \<times> 's" where
  "and_then r stage = (case r of (Inl e, s) \<Rightarrow> (Inl e, s) | (Inr u, s) \<Rightarrow> stage s)"

definition main :: "stages \<Rightarrow> kpi_database \<Rightarrow> int \<Rightarrow> string list \<Rightarrow> session \<Rightarrow> run_state \<times> session" where
  "main st db now argv s =
     (case and_then (and_then (and_then (and_then
             (if 1 < length argv then load_stage st (argv ! 1) s else (Inr (), s))
             (validate_all st))
             (calculate_all_kpis db now (Some (now - days30)) (Some now) 10))
             (generate_all_charts st))
             (generate_all_reports st) of
        (Inl e, s') \<Rightarrow> (Failed, s')
      | (Inr u, s') \<Rightarrow> (Done, s'))"

section \<open>Example data\<close>

text \<open>The empty \<open>kpi_thresholds\<close> section: every default applies.\<close>

definition no_thresholds :: thresholds where
  "no_thresholds = \<lparr>revenue_anomaly_percentage = None, trend_detection_periods = None\<rparr>"

text \<open>A sale of one unit: timestamp, customer, region and amount.\<close>

definition sale :: "int \<Rightarrow> int option \<Rightarrow> int option \<Rightarrow> real \<Rightarrow> int transaction" where
  "sale ts c r a =
     \<lparr>transaction_date = ts, customer_id = c, product_id = Some 101, quantity = 1,
      unit_price = a, total_amount = a, region_id = r, discount_percentage = 0\<rparr>"



text \<open>
  A descending sort that is not stable: it sorts ascending and reverses, so rows with
  equal keys come out in the reverse of their order.
\<close>

definition reversing_descending :: "'a sorter" where
  "reversing_descending key xs = rev (sort_key key xs)"

text \<open>Four sales of three customers; customers 1 and 2 have the same revenue.\<close>

definition sales_three_customers :: "int transaction list" where
  "sales_three_customers =
     [sale 0 (Some 2) (Some 1) 10, sale 0 (Some 1) (Some 1) 4, sale 0 (Some 3) (Some 2) 25,
      sale 86400 (Some 1) (Some 1) 6]"

text \<open>A date parser that knows timestamps only; frames of days and values.\<close>

definition parse_stamp :: "cell \<Rightarrow> int option" where
  "parse_stamp c = (case c of Stamp ts \<Rightarrow> Some ts | _ \<Rightarrow> None)"

definition days :: "int list \<Rightarrow> cell list" where
  "days ds = map Stamp ds"

definition nums :: "real list \<Rightarrow> cell list" where
  "nums xs = map Num xs"



definition text_frame :: dataframe where
  "text_frame =
     [(''day'', days [1, 2, 3]), (''amount'', [Text ''a'', Text ''b'', Text ''c''])]"



text \<open>
  Parsers for the examples, and files: one without \<open>unit_price\<close>, one with a blank region,
  one without the region column.
\<close>

definition lib0 :: pylib where
  "lib0 = \<lparr>parse_date = parse_stamp, parse_int = (\<lambda>s. None), parse_float = (\<lambda>s. None)\<rparr>"

definition db0 :: database where
  "db0 = \<lparr>connect_ok = True, executemany_ok = (\<lambda>batch. True)\<rparr>"

definition no_unit_price :: dataframe where
  "no_unit_price =
     [(''transaction_date'', days [1, 2]), (''customer_id'', nums [1, 2]),
      (''product_id'', nums [101, 102]), (''quantity'', nums [2, 1]),
      (''total_amount'', nums [20, 5])]"

definition blank_region :: dataframe where
  "blank_region =
     [(''transaction_date'', days [1, 2]), (''customer_id'', nums [1, 2]),
      (''product_id'', nums [101, 102]), (''quantity'', nums [2, 1]),
      (''unit_price'', nums [10, 5]), (''total_amount'', nums [20, 5]),
      (''region_id'', [Num 3, Null])]"

definition no_region :: dataframe where
  "no_region =
     [(''transaction_date'', days [1]), (''customer_id'', nums [1]),
      (''product_id'', nums [101]), (''quantity'', nums [2]),
      (''unit_price'', nums [10]), (''total_amount'', nums [20])]"

definition world0 :: world where
  "world0 =
     \<lparr>SALES_TRANSACTIONS = [],
      input_data = [''bad.csv'' \<mapsto> no_unit_price, ''blank.csv'' \<mapsto> blank_region,
                    ''plain.csv'' \<mapsto> no_region],
      archive_data = []\<rparr>"

text \<open>
  A database whose procedures each write one row; the third writes its row and raises.
  Stages that do nothing.
\<close>

definition kpi_row_of :: "kpi_procedure \<Rightarrow> kpi_result" where
  "kpi_row_of p =
     \<lparr>KPI_NAME = (case p of CALC_REVENUE_BY_REGION \<Rightarrow> REVENUE_BY_REGION
                    | CALC_MONTHLY_REVENUE_TREND \<Rightarrow> MONTHLY_REVENUE_TREND
                    | CALC_TOP_CUSTOMERS \<Rightarrow> TOP_CUSTOMERS
                    | CALC_PRODUCT_PERFORMANCE \<Rightarrow> TOP_CUSTOMERS
                    | CALC_AVG_TRANSACTION_VALUE \<Rightarrow> AVG_TRANSACTION_VALUE),
      KPI_VALUE = 1, KPI_DATE = 0, REGION_ID = None, CALCULATION_DATE = 0\<rparr>"

definition failing_third :: kpi_database where
  "failing_third =
     \<lparr>connects = True,
      callproc = (\<lambda>p args seen. ([kpi_row_of p], p \<noteq> CALC_TOP_CUSTOMERS)),
      commit_ok = (\<lambda>p. True)\<rparr>"

definition idle_stages :: stages where
  "idle_stages =
     \<lparr>load_stage = (\<lambda>csv_file s. (Inr (), s)), validate_all = (\<lambda>s. (Inr (), s)),
      generate_all_charts = (\<lambda>s. (Inr (), s)), generate_all_reports = (\<lambda>s. (Inr (), s))\<rparr>"

definition session0 :: session where
  "session0 = \<lparr>KPI_RESULTS = [], uncommitted = [], logged = []\<rparr>"

section \<open>Properties of the trend classifier\<close>

lemma length_fetch_first_desc:
  "length (fetch_first p (order_by_date_desc rows)) = min (nat p) (length rows)"
  by (simp add: fetch_first_def order_by_date_desc_def)

text \<open>With at least two periods asked for and that many rows stored, a trend is reported.\<close>

lemma detect_trends_enough:
  assumes "trend_periods th periods = p" and "2 \<le> p" and "p \<le> int (length rows)"
  shows "detect_trends th rows periods =
           Trend (if hd (trend_window rows p) < last (trend_window rows p)
                  then Increasing else Decreasing)
                 (times100 (np_div (last (trend_window rows p) - hd (trend_window rows p))
                                   (hd (trend_window rows p)))) p"
proof -
  have len: "length (fetch_first p (order_by_date_desc rows)) = nat p"
    using assms by (simp add: length_fetch_first_desc)
  have "\<not> int (length (fetch_first p (order_by_date_desc rows))) < p"
    using assms len by simp
  moreover have "2 \<le> length (map snd (sort_key fst (fetch_first p (order_by_date_desc rows))))"
    using assms len by simp
  ultimately show ?thesis
    using assms(1) by (simp add: detect_trends_def trend_window_def Let_def)
qed

text \<open>With one period asked for, one value is looked at and no trend is reported.\<close>

lemma detect_trends_one:
  assumes "trend_periods th periods = 1" and "1 \<le> length rows"
  shows "detect_trends th rows periods = NoClearTrend"
proof -
  have "length (fetch_first 1 (order_by_date_desc rows)) = 1"
    using assms by (simp add: length_fetch_first_desc)
  then show ?thesis
    using assms(1) by (simp add: detect_trends_def Let_def)
qed

text \<open>
  C2, as the code has it. \<open>detect_trends\<close> has no guard for a first value of zero and no
  result for an indeterminate trend: it divides, and the float division yields \<open>inf\<close>,
  \<open>-inf\<close> or \<open>nan\<close>. For every series with at least \<open>periods\<close> rows (\<open>periods\<close> given,
  configured or the default 3) whose earliest value in the window is 0, the classifier
  returns, for two periods or more, the ordinary trend string: "increasing" with \<open>inf\<close>
  percent when the last value is positive, "decreasing" with \<open>-inf\<close> percent when it is
  negative, "decreasing" with \<open>nan\<close> percent when it is 0 too; for one period it returns
  "No clear trend detected". Nothing is raised.
\<close>

theorem zero_first_value_unguarded:
  assumes "trend_periods th periods = p" and "1 \<le> p" and "p \<le> int (length rows)"
    and "hd (trend_window rows p) = 0"
  shows "detect_trends th rows periods =
           (if p = 1 then NoClearTrend
            else Trend (if 0 < last (trend_window rows p) then Increasing else Decreasing)
                       (if 0 < last (trend_window rows p) then PosInf
                        else if last (trend_window rows p) < 0 then NegInf else NaN) p)"
proof (cases "p = 1")
  case True
  then show ?thesis using assms by (simp add: detect_trends_one)
next
  case False
  then have "2 \<le> p" using assms(2) by simp
  then show ?thesis using False assms by (simp add: detect_trends_enough np_div_def)
qed

theorem zero_first_value_unguarded_witness:
  "trend_periods no_thresholds (Some 2) = 2 \<and>
   2 \<le> int (length [(1::int, 0::real), (2, 5), (3, 0), (4, -5)]) \<and>
   hd (trend_window [(1, 0), (2, 5), (3, 0), (4, -5)] 2) = 0 \<and>
   detect_trends no_thresholds [(1, 0), (2, 5), (3, 0), (4, -5)] (Some 2) = Trend Decreasing NegInf 2 \<and>
   trend_periods no_thresholds None = 3 \<and>
   hd (trend_window [(1, 0), (2, 5), (3, 7)] 3) = 0 \<and>
   detect_trends no_thresholds [(1, 0), (2, 5), (3, 7)] None = Trend Increasing PosInf 3"
proof -
  have w: "trend_window [(1, 0), (2, 5), (3, 0), (4, -5)] 2 = [0, -5]"
    by (simp add: trend_window_def fetch_first_def order_by_date_desc_def numeral_2_eq_2)
  have p: "trend_periods no_thresholds (Some 2) = 2"
    by (simp add: trend_periods_def)
  have w3: "trend_window [(1, 0), (2, 5), (3, 7)] 3 = [0, 5, 7]"
    by (simp add: trend_window_def fetch_first_def order_by_date_desc_def numeral_3_eq_3)
  have p3: "trend_periods no_thresholds None = 3"
    by (simp add: trend_periods_def no_thresholds_def)
  show ?thesis
    using zero_first_value_unguarded [OF p, of "[(1, 0), (2, 5), (3, 0), (4, -5)]"]
      zero_first_value_unguarded [OF p3, of "[(1, 0), (2, 5), (3, 7)]"]
    by (simp add: w p w3 p3)
qed

text \<open>
  C2, as stated, fails: on the series 0, 5 over 2 periods the classifier reports an
  increasing trend with an infinite percentage, not an indeterminate trend.
\<close>

theorem zero_first_value_counterexample:
  "detect_trends no_thresholds [(1, 0), (2, 5)] (Some 2) = Trend Increasing PosInf 2"
  by (simp add: detect_trends_def trend_periods_def fetch_first_def order_by_date_desc_def
      np_div_def)

text \<open>
  C3, as the code has it. On 100, 150 over 2 periods the classifier returns "increasing"
  with 50 percent. A window whose last value equals its first (and is not 0) is classified
  "decreasing" with 0 percent: the test is \<open>last > first\<close>, and everything else is the
  \<open>else\<close> branch.
\<close>

theorem equal_values_decreasing:
  "detect_trends th [(1, 100), (2, 150)] (Some 2) = Trend Increasing (Fin 50) 2 \<and>
   (\<forall>rows p. 2 \<le> p \<and> p \<le> int (length rows) \<and>
       last (trend_window rows p) = hd (trend_window rows p) \<and> hd (trend_window rows p) \<noteq> 0
       \<longrightarrow> detect_trends th rows (Some p) = Trend Decreasing (Fin 0) p)"
proof
  show "detect_trends th [(1, 100), (2, 150)] (Some 2) = Trend Increasing (Fin 50) 2"
    by (simp add: detect_trends_def trend_periods_def fetch_first_def order_by_date_desc_def
        np_div_def)
next
  show "\<forall>rows p. 2 \<le> p \<and> p \<le> int (length rows) \<and>
       last (trend_window rows p) = hd (trend_window rows p) \<and> hd (trend_window rows p) \<noteq> 0
       \<longrightarrow> detect_trends th rows (Some p) = Trend Decreasing (Fin 0) p"
    by (simp add: detect_trends_enough trend_periods_def np_div_def)
qed

theorem equal_values_decreasing_witness:
  "last (trend_window [(1, 100), (2, 100)] 2) = hd (trend_window [(1, 100), (2, 100)] 2) \<and>
   hd (trend_window [(1, 100), (2, 100)] 2) \<noteq> 0 \<and>
   detect_trends no_thresholds [(1, 100), (2, 100)] (Some 2) = Trend Decreasing (Fin 0) 2"
proof -
  have w: "trend_window [(1, 100), (2, 100)] 2 = [100, 100]"
    by (simp add: trend_window_def fetch_first_def order_by_date_desc_def numeral_2_eq_2)
  have "2 \<le> (2::int) \<and> 2 \<le> int (length [(1::int, 100::real), (2, 100)]) \<and>
        last (trend_window [(1, 100), (2, 100)] 2) = hd (trend_window [(1, 100), (2, 100)] 2) \<and>
        hd (trend_window [(1, 100), (2, 100)] 2) \<noteq> 0"
    by (simp add: w)
  with equal_values_decreasing [of no_thresholds] show ?thesis
    by (simp add: w)
qed

text \<open>
  C3, as stated, fails: on 100, 100 the classifier says "decreasing", not "increasing".
\<close>

theorem equal_values_counterexample:
  "detect_trends no_thresholds [(1, 100), (2, 100)] (Some 2) = Trend Decreasing (Fin 0) 2 \<and>
   detect_trends no_thresholds [(1, 100), (2, 100)] (Some 2) \<noteq> Trend Increasing (Fin 0) 2"
  by (simp add: detect_trends_def trend_periods_def fetch_first_def order_by_date_desc_def
      np_div_def)

section \<open>Properties of the aggregation\<close>

lemma group_sum_Cons:
  "group_sum (r # rows) k = (if fst r = k then snd r else 0) + group_sum rows k"
  by (simp add: group_sum_def)

lemma group_sum_absent: "k \<notin> set (map fst rows) \<Longrightarrow> group_sum rows k = 0"
  by (induction rows) (auto simp: group_sum_def)

lemma sum_list_delta:
  "distinct ks \<Longrightarrow>
   sum_list (map (\<lambda>k. if a = k then (c::real) else 0) ks) = (if a \<in> set ks then c else 0)"
  by (induction ks) auto

text \<open>The sums of the buckets of distinct keys add up to the rows with these keys.\<close>

lemma sum_group_sums:
  "distinct ks \<Longrightarrow>
   sum_list (map (group_sum rows) ks) = sum_list (map snd (filter (\<lambda>r. fst r \<in> set ks) rows))"
proof (induction rows)
  case Nil
  then show ?case by (simp add: group_sum_def)
next
  case (Cons r rows)
  have "sum_list (map (group_sum (r # rows)) ks) =
        sum_list (map (\<lambda>k. if fst r = k then snd r else 0) ks) + sum_list (map (group_sum rows) ks)"
    by (induction ks) (simp_all add: group_sum_Cons)
  then show ?case using Cons by (simp add: sum_list_delta)
qed

text \<open>Grouping loses nothing: the buckets add up to the rows.\<close>

lemma sum_groupby_sum: "sum_list (map snd (groupby_sum rows)) = sum_list (map snd rows)"
proof -
  have "sum_list (map snd (groupby_sum rows)) =
        sum_list (map (group_sum rows) (sort (remdups (map fst rows))))"
    by (simp add: groupby_sum_def comp_def)
  also have "\<dots> = sum_list (map snd (filter (\<lambda>r. fst r \<in> set (sort (remdups (map fst rows)))) rows))"
    by (rule sum_group_sums) simp
  also have "\<dots> = sum_list (map snd rows)"
    by (simp cong: filter_cong)
  finally show ?thesis .
qed

lemma sum_dropna_key:
  "sum_list (map snd rows) = sum_list (map snd (dropna_key rows)) + group_sum rows None"
  by (induction rows rule: dropna_key.induct) (simp_all add: group_sum_def)









subsection \<open>Top customers\<close>
















lemma reversing_descending_sorts: "sorts_descending reversing_descending"
proof -
  have "sorted_wrt (\<lambda>a b. key b \<le> key a) (rev (sort_key key xs))"
    for key :: "'a \<Rightarrow> real" and xs
    using sorted_sort_key [of key xs] by (simp add: sorted_wrt_rev sorted_map sorted_wrt_map)
  then show ?thesis by (simp add: sorts_descending_def reversing_descending_def)
qed





lemma customer_revenue_three:
  "customer_revenue sales_three_customers = [(1, 10), (2, 10), (3, 25)]"
  by (simp add: customer_revenue_def sales_three_customers_def sale_def groupby_sum_def
      group_sum_def)




text \<open>
  What \<open>sort_values\<close> promises does not fix the order of equal sums: a descending sort
  that is not stable may return customer 2 before customer 1.
\<close>

lemma unstable_sort_reverses_ties:
  "sorts_descending (reversing_descending :: (int \<times> real) sorter) \<and>
   top_customers reversing_descending sales_three_customers 3 = [(3, 25), (2, 10), (1, 10)]"
  by (simp add: reversing_descending_sorts top_customers_def customer_revenue_three
      reversing_descending_def head_def)

section \<open>Properties of the outlier detectors\<close>























text \<open>
  C10. The dashboard's \<open>detect_outliers\<close> returns a frame for every input and raises
  nothing: a column name that is \<open>None\<close> or empty, a column that the frame does not have,
  and every exception of the body of the \<open>try\<close> give the empty result, as a series without
  outliers does.
\<close>

theorem detect_outliers_total:
  "(\<exists>rows. detect_outliers parse srt df date_col value_col threshold = Inr rows) \<and>
   (falsy date_col \<or> falsy value_col
      \<longrightarrow> detect_outliers parse srt df date_col value_col threshold = Inr []) \<and>
   (\<forall>dc vc. date_col = Some dc \<and> value_col = Some vc \<and>
        (dc \<notin> set (columns df) \<or> vc \<notin> set (columns df))
      \<longrightarrow> detect_outliers parse srt df date_col value_col threshold = Inr []) \<and>
   (\<forall>dc vc e. date_col = Some dc \<and> value_col = Some vc \<and>
        detect_outliers_try parse srt df dc vc (default_threshold threshold) = Inl e
      \<longrightarrow> detect_outliers parse srt df date_col value_col threshold = Inr [])"
proof (intro conjI allI impI)
  show "\<exists>rows. detect_outliers parse srt df date_col value_col threshold = Inr rows"
    by (simp add: detect_outliers_def split: option.splits sum.splits)
next
  assume "falsy date_col \<or> falsy value_col"
  then show "detect_outliers parse srt df date_col value_col threshold = Inr []"
    by (simp add: detect_outliers_def)
next
  fix dc vc
  assume "date_col = Some dc \<and> value_col = Some vc \<and>
        (dc \<notin> set (columns df) \<or> vc \<notin> set (columns df))"
  then show "detect_outliers parse srt df date_col value_col threshold = Inr []"
    by (auto simp: detect_outliers_def)
next
  fix dc vc e
  assume "date_col = Some dc \<and> value_col = Some vc \<and>
        detect_outliers_try parse srt df dc vc (default_threshold threshold) = Inl e"
  then show "detect_outliers parse srt df date_col value_col threshold = Inr []"
    by (auto simp: detect_outliers_def)
qed

lemma text_frame_raises:
  "detect_outliers_try parse_stamp srt text_frame ''day'' ''amount'' t = Inl TypeError"
  by (simp add: detect_outliers_try_def aggregated_series_def text_frame_def days_def
      parse_stamp_def to_datetime_coerce_def)

theorem detect_outliers_total_witness:
  "detect_outliers_try parse_stamp stable_descending text_frame ''day'' ''amount''
     (default_threshold None) = Inl TypeError \<and>
   detect_outliers parse_stamp stable_descending text_frame (Some ''day'') (Some ''amount'') None
     = Inr [] \<and>
   falsy None \<and>
   detect_outliers parse_stamp stable_descending text_frame None (Some ''amount'') None = Inr [] \<and>
   ''date'' \<notin> set (columns text_frame) \<and>
   detect_outliers parse_stamp stable_descending text_frame (Some ''date'') (Some ''amount'') None
     = Inr []"
proof -
  have f: "falsy None" by (simp add: falsy_def)
  have c: "''date'' \<notin> set (columns text_frame)" by (simp add: columns_def text_frame_def)
  from detect_outliers_total
         [of parse_stamp stable_descending text_frame "Some ''day''" "Some ''amount''" None]
       text_frame_raises [of stable_descending "default_threshold None"]
  have a: "detect_outliers parse_stamp stable_descending text_frame (Some ''day'')
             (Some ''amount'') None = Inr []"
    by blast
  from detect_outliers_total
         [of parse_stamp stable_descending text_frame None "Some ''amount''" None] f
  have b: "detect_outliers parse_stamp stable_descending text_frame None (Some ''amount'') None
             = Inr []"
    by blast
  from detect_outliers_total
         [of parse_stamp stable_descending text_frame "Some ''date''" "Some ''amount''" None] c
  have d: "detect_outliers parse_stamp stable_descending text_frame (Some ''date'')
             (Some ''amount'') None = Inr []"
    by blast
  from a b d f c text_frame_raises [of stable_descending "default_threshold None"]
  show ?thesis by simp
qed

section \<open>Properties of the loader\<close>

text \<open>
  C7. Loading a file that lacks a required column (\<open>unit_price\<close>, say) fails with the
  error that names the missing columns (the \<open>ValueError\<close> "Missing required columns",
  the schema error of the specification) and leaves the world as it was: no row is
  inserted, the file is still in the input directory, and nothing is archived.
\<close>

theorem missing_column_rejected:
  assumes "input_data w csv_file = Some df"
    and "\<exists>col \<in> set required_columns. col \<notin> set (columns df)"
  shows "\<exists>missing. missing \<noteq> [] \<and>
           set missing = {col \<in> set required_columns. col \<notin> set (columns df)} \<and>
           load_sales_data lib db csv_file w = (Inl (MissingRequiredColumns missing), w) \<and>
           SALES_TRANSACTIONS (snd (load_sales_data lib db csv_file w)) = SALES_TRANSACTIONS w \<and>
           archive_data (snd (load_sales_data lib db csv_file w)) = archive_data w \<and>
           input_data (snd (load_sales_data lib db csv_file w)) csv_file = Some df"
proof -
  let ?missing = "filter (\<lambda>col. col \<notin> set (columns df)) required_columns"
  have ne: "?missing \<noteq> []" using assms(2) by (simp add: filter_empty_conv)
  then have "load_sales_data lib db csv_file w = (Inl (MissingRequiredColumns ?missing), w)"
    using assms(1) by (simp add: load_sales_data_def Let_def)
  then show ?thesis using ne assms(1) by (intro exI [of _ ?missing]) auto
qed

theorem missing_column_rejected_witness:
  "input_data world0 ''bad.csv'' = Some no_unit_price \<and>
   ''unit_price'' \<in> set required_columns \<and> ''unit_price'' \<notin> set (columns no_unit_price) \<and>
   load_sales_data lib0 db0 ''bad.csv'' world0 = (Inl (MissingRequiredColumns [''unit_price'']), world0)"
proof -
  have f: "input_data world0 ''bad.csv'' = Some no_unit_price"
    by (simp add: world0_def)
  have r: "''unit_price'' \<in> set required_columns" by (simp add: required_columns_def)
  have c: "''unit_price'' \<notin> set (columns no_unit_price)"
    by (simp add: columns_def no_unit_price_def)
  have m: "filter (\<lambda>col. col \<notin> set (columns no_unit_price)) required_columns = [''unit_price'']"
    by (simp add: columns_def no_unit_price_def required_columns_def)
  from r c have "\<exists>col \<in> set required_columns. col \<notin> set (columns no_unit_price)" by blast
  from missing_column_rejected [OF f this, of lib0 db0]
  obtain missing where "load_sales_data lib0 db0 ''bad.csv'' world0
                          = (Inl (MissingRequiredColumns missing), world0)"
    by blast
  moreover have "load_sales_data lib0 db0 ''bad.csv'' world0
                   = (Inl (MissingRequiredColumns [''unit_price'']), world0)"
    using f m by (simp add: load_sales_data_def Let_def)
  ultimately show ?thesis using f r c by simp
qed

lemma raising_Inr: "raising r f = Inr y \<Longrightarrow> \<exists>x. r = Inr x \<and> f x = Inr y"
  by (cases r) (simp_all add: raising_def)

lemma traverse_length: "traverse f xs = Inr ys \<Longrightarrow> length ys = length xs"
  by (induction xs arbitrary: ys) (auto split: sum.splits)

lemma traverse_nth:
  "traverse f xs = Inr ys \<Longrightarrow> i < length xs \<Longrightarrow> f (xs ! i) = Inr (ys ! i)"
proof (induction xs arbitrary: ys i)
  case Nil
  then show ?case by simp
next
  case (Cons x xs)
  then show ?case by (cases i) (auto split: sum.splits)
qed

lemma data_tuple_region:
  assumes "data_tuple lib row = Inr t"
  shows "region_value lib row = Inr (region_id t)"
  using assms unfolding data_tuple_def
  by (auto dest!: raising_Inr)

lemma map_of_fillna0: "map_of (fillna0 df) c = map_option (map fill0) (map_of df c)"
  by (induction df) (auto simp: fillna0_def)

lemma row_at_col: "row_at df i c = map_option (\<lambda>cells. cell_at cells i) (map_of df c)"
  unfolding row_at_def by (induction df) auto

lemma map_of_assign:
  "c \<noteq> name \<Longrightarrow>
   map_of (map (\<lambda>(n, cs). if n = name then (n, new) else (n, cs)) df) c = map_of df c"
  by (induction df) auto

lemma map_of_columns: "(map_of df c = None) = (c \<notin> set (columns df))"
  by (simp add: columns_def map_of_eq_None_iff)


lemma fill0_not_Null: "fill0 c \<noteq> Null"
  by (cases c) (simp_all add: fill0_def)

lemma region_value_present:
  assumes "row ''region_id'' = Some c" and "c \<noteq> Null" and "region_value lib row = Inr r"
  shows "r \<noteq> None"
  using assms by (cases c) (auto simp: region_value_def split: sum.splits)

lemma region_value_zero:
  assumes "row ''region_id'' = Some (Num 0)" and "region_value lib row = Inr r"
  shows "r = Some 0"
  using assms by (auto simp: region_value_def trunc_def)

lemma region_value_absent:
  assumes "row ''region_id'' = None" and "region_value lib row = Inr r"
  shows "r = None"
  using assms by (simp add: region_value_def)

text \<open>What a successful cleaning returns.\<close>

lemma clean_Inr:
  assumes "clean lib df = Inr cleaned"
  shows "\<exists>cells stamps. map_of df ''transaction_date'' = Some cells \<and>
           length stamps = length cells \<and>
           cleaned = fillna0 (map (\<lambda>(name, cs). if name = ''transaction_date''
                                                 then (name, stamps) else (name, cs)) df)"
  using assms
  by (auto simp: clean_def split: option.splits sum.splits dest: traverse_length)

lemma clean_region_column:
  assumes "clean lib df = Inr cleaned"
  shows "map_of cleaned ''region_id'' = map_option (map fill0) (map_of df ''region_id'')"
proof -
  from clean_Inr [OF assms] obtain stamps where
    "cleaned = fillna0 (map (\<lambda>(name, cs). if name = ''transaction_date''
                                                 then (name, stamps) else (name, cs)) df)"
    by blast
  then show ?thesis by (simp add: map_of_fillna0 map_of_assign)
qed

lemma len_clean:
  assumes "clean lib df = Inr cleaned" and "frame df"
  shows "len cleaned = len df"
proof -
  from clean_Inr [OF assms(1)] obtain cells stamps where
    c: "map_of df ''transaction_date'' = Some cells" and l: "length stamps = length cells" and
    d: "cleaned = fillna0 (map (\<lambda>(name, cs). if name = ''transaction_date''
                                                 then (name, stamps) else (name, cs)) df)"
    by blast
  have "(''transaction_date'', cells) \<in> set df" using c by (rule map_of_SomeD)
  then have "length cells = len df" using assms(2) by (auto simp: frame_def)
  then show ?thesis
    using l d by (cases df) (auto simp: len_def fillna0_def)
qed


lemma load_success:
  assumes "load_sales_data lib db csv_file w = (Inr n, w')"
    and "input_data w csv_file = Some df"
  shows "\<exists>cleaned tuples. clean lib df = Inr cleaned \<and> data_tuples lib cleaned = Inr tuples \<and>
           n = len cleaned \<and> SALES_TRANSACTIONS w' = SALES_TRANSACTIONS w @ tuples"
proof -
  have "filter (\<lambda>col. col \<notin> set (columns df)) required_columns = []"
    using assms by (auto simp: load_sales_data_def Let_def split: if_splits)
  then show ?thesis
    using assms
    by (auto simp: load_sales_data_def Let_def split: sum.splits if_splits)
qed

lemma data_tuples_nth:
  assumes "data_tuples lib df = Inr tuples"
  shows "length tuples = len df"
    and "i < len df \<Longrightarrow> data_tuple lib (row_at df i) = Inr (tuples ! i)"
proof -
  show "length tuples = len df"
    using traverse_length [OF assms [unfolded data_tuples_def]] by simp
  show "data_tuple lib (row_at df i) = Inr (tuples ! i)" if "i < len df"
    using traverse_nth [OF assms [unfolded data_tuples_def], of i] that by simp
qed

lemma region_revenue_complete:
  assumes "\<forall>t \<in> set tuples. region_id t \<noteq> None"
  shows "sum_list (map snd (region_revenue tuples)) = total_revenue tuples"
proof -
  let ?rows = "map (\<lambda>t. (region_id t, total_amount t)) tuples"
  have "None \<notin> set (map fst ?rows)" using assms by (auto simp: image_iff)
  then have "group_sum ?rows None = 0" by (rule group_sum_absent)
  then have "sum_list (map snd (dropna_key ?rows)) = sum_list (map snd ?rows)"
    using sum_dropna_key [of ?rows] by simp
  then show ?thesis
    by (simp add: region_revenue_def sum_groupby_sum total_revenue_def comp_def)
qed

text \<open>
  C9. For every load that succeeds, the rows inserted are the tuples of the file, in order.
  When the file has a \<open>region_id\<close> column no tuple has a null region: a blank region was
  filled with 0 before the tuples were built and is inserted as region 0, and the grouping
  by region with \<open>dropna=True\<close> leaves none of the inserted rows out (its buckets add up
  to their total). When the file has no \<open>region_id\<close> column every tuple has a null region.
\<close>

theorem loaded_region_never_null:
  assumes load: "load_sales_data lib db csv_file w = (Inr n, w')"
    and inp: "input_data w csv_file = Some df"
    and fr: "frame df"
  shows "\<exists>tuples. SALES_TRANSACTIONS w' = SALES_TRANSACTIONS w @ tuples \<and> length tuples = n \<and>
           (\<forall>cells. map_of df ''region_id'' = Some cells \<longrightarrow>
              (\<forall>i < n. region_id (tuples ! i) \<noteq> None \<and>
                        (cells ! i = Null \<longrightarrow> region_id (tuples ! i) = Some 0)) \<and>
              sum_list (map snd (region_revenue tuples)) = total_revenue tuples) \<and>
           (''region_id'' \<notin> set (columns df) \<longrightarrow> (\<forall>t \<in> set tuples. region_id t = None))"
proof -
  from load_success [OF load inp] obtain cleaned tuples where
    cl: "clean lib df = Inr cleaned" and dt: "data_tuples lib cleaned = Inr tuples" and
    n: "n = len cleaned" and st: "SALES_TRANSACTIONS w' = SALES_TRANSACTIONS w @ tuples"
    by blast
  have len: "length tuples = n" using data_tuples_nth(1) [OF dt] n by simp
  have nlen: "n = len df" using len_clean [OF cl fr] n by simp
  have reg: "region_value lib (row_at cleaned i) = Inr (region_id (tuples ! i))" if "i < n" for i
    using data_tuples_nth(2) [OF dt, of i] that n by (simp add: data_tuple_region)
  have present: "(\<forall>i < n. region_id (tuples ! i) \<noteq> None \<and>
                        (cells ! i = Null \<longrightarrow> region_id (tuples ! i) = Some 0)) \<and>
              sum_list (map snd (region_revenue tuples)) = total_revenue tuples"
    if c: "map_of df ''region_id'' = Some cells" for cells
  proof -
    have "(''region_id'', cells) \<in> set df" using c by (rule map_of_SomeD)
    then have lc: "length cells = n" using fr nlen by (auto simp: frame_def)
    have row: "row_at cleaned i ''region_id'' = Some (fill0 (cells ! i))" if "i < n" for i
      using that lc by (simp add: row_at_col clean_region_column [OF cl] c cell_at_def)
    have a: "region_id (tuples ! i) \<noteq> None" if "i < n" for i
      using region_value_present [OF row [OF that] fill0_not_Null reg [OF that]] .
    have b: "region_id (tuples ! i) = Some 0" if "i < n" and "cells ! i = Null" for i
    proof -
      have "row_at cleaned i ''region_id'' = Some (Num 0)"
        using row [OF that(1)] that(2) by (simp add: fill0_def)
      then show ?thesis using reg [OF that(1)] by (rule region_value_zero)
    qed
    have "\<forall>t \<in> set tuples. region_id t \<noteq> None"
      using a len by (auto simp: in_set_conv_nth)
    then have "sum_list (map snd (region_revenue tuples)) = total_revenue tuples"
      by (rule region_revenue_complete)
    then show ?thesis using a b by blast
  qed
  have absent: "\<forall>t \<in> set tuples. region_id t = None" if "''region_id'' \<notin> set (columns df)"
  proof -
    have "map_of df ''region_id'' = None" using that by (simp add: map_of_columns)
    then have "row_at cleaned i ''region_id'' = None" for i
      by (simp add: row_at_col clean_region_column [OF cl])
    then have "region_id (tuples ! i) = None" if "i < n" for i
      using region_value_absent [OF _ reg [OF that]] by simp
    then show ?thesis using len by (auto simp: in_set_conv_nth)
  qed
  from st len present absent show ?thesis by blast
qed


lemma load_blank_result: "fst (load_sales_data lib0 db0 ''blank.csv'' world0) = Inr 2"
  by code_simp

lemma load_blank_rows:
  "SALES_TRANSACTIONS (snd (load_sales_data lib0 db0 ''blank.csv'' world0)) =
     [\<lparr>transaction_date = Stamp 1, customer_id = Some 1, product_id = Some 101, quantity = 2,
       unit_price = 10, total_amount = 20, region_id = Some 3, discount_percentage = 0\<rparr>,
      \<lparr>transaction_date = Stamp 2, customer_id = Some 2, product_id = Some 102, quantity = 1,
       unit_price = 5, total_amount = 5, region_id = Some 0, discount_percentage = 0\<rparr>]"
  by code_simp

lemma load_plain_rows:
  "fst (load_sales_data lib0 db0 ''plain.csv'' world0) = Inr 1 \<and>
   map region_id (SALES_TRANSACTIONS (snd (load_sales_data lib0 db0 ''plain.csv'' world0))) = [None]"
  by code_simp

theorem loaded_region_never_null_witness:
  "input_data world0 ''blank.csv'' = Some blank_region \<and> frame blank_region \<and>
   fst (load_sales_data lib0 db0 ''blank.csv'' world0) = Inr 2 \<and>
   map_of blank_region ''region_id'' = Some [Num 3, Null] \<and>
   map region_id (SALES_TRANSACTIONS (snd (load_sales_data lib0 db0 ''blank.csv'' world0)))
     = [Some 3, Some 0] \<and>
   region_id (SALES_TRANSACTIONS (snd (load_sales_data lib0 db0 ''blank.csv'' world0)) ! 1) = Some 0 \<and>
   region_revenue (SALES_TRANSACTIONS (snd (load_sales_data lib0 db0 ''blank.csv'' world0)))
     = [(0, 5), (3, 20)] \<and>
   input_data world0 ''plain.csv'' = Some no_region \<and> frame no_region \<and>
   ''region_id'' \<notin> set (columns no_region) \<and>
   map region_id (SALES_TRANSACTIONS (snd (load_sales_data lib0 db0 ''plain.csv'' world0))) = [None]"
proof -
  let ?w = "snd (load_sales_data lib0 db0 ''blank.csv'' world0)"
  have inp: "input_data world0 ''blank.csv'' = Some blank_region"
    by (simp add: world0_def)
  have fr: "frame blank_region"
    by (simp add: frame_def blank_region_def len_def days_def nums_def)
  have load: "load_sales_data lib0 db0 ''blank.csv'' world0 = (Inr 2, ?w)"
    using load_blank_result by (simp add: prod_eq_iff)
  have col: "map_of blank_region ''region_id'' = Some [Num 3, Null]"
    by (simp add: blank_region_def)
  have old: "SALES_TRANSACTIONS world0 = []" by (simp add: world0_def)
  from loaded_region_never_null [OF load inp fr] col old
  obtain tuples where t: "SALES_TRANSACTIONS ?w = tuples"
    and z: "\<forall>i<2. region_id (tuples ! i) \<noteq> None \<and>
                   ([Num 3, Null] ! i = Null \<longrightarrow> region_id (tuples ! i) = Some 0)"
    by auto
  have one: "region_id (SALES_TRANSACTIONS ?w ! 1) = Some 0"
    using z t by simp
  have rr: "region_revenue (SALES_TRANSACTIONS ?w) = [(0, 5), (3, 20)]"
    unfolding load_blank_rows
    by (simp add: region_revenue_def groupby_sum_def group_sum_def)
  have inp2: "input_data world0 ''plain.csv'' = Some no_region"
    by (simp add: world0_def)
  have fr2: "frame no_region"
    by (simp add: frame_def no_region_def len_def days_def nums_def)
  have c2: "''region_id'' \<notin> set (columns no_region)"
    by (simp add: columns_def no_region_def)
  from inp fr load_blank_result col one rr inp2 fr2 c2 load_plain_rows show ?thesis
    by (simp add: load_blank_rows)
qed

section \<open>Properties of the KPI calculation\<close>

lemma call_and_commit_Inr:
  assumes "call_and_commit db step s = (Inr u, s')"
  shows "uncommitted s' = [] \<and>
         KPI_RESULTS s' = KPI_RESULTS s @ uncommitted s @
            fst (callproc db (fst step) (snd step) (KPI_RESULTS s @ uncommitted s)) \<and>
         logged s' = logged s @ [Calculating (fst step)]"
  using assms by (auto simp: call_and_commit_def Let_def split: if_splits)

lemma call_and_commit_Inl:
  assumes "call_and_commit db step s = (Inl e, s')"
  shows "s' = s\<lparr>logged := logged s @ [Calculating (fst step)],
               uncommitted := uncommitted s @
                 fst (callproc db (fst step) (snd step) (KPI_RESULTS s @ uncommitted s))\<rparr>"
  using assms by (auto simp: call_and_commit_def Let_def split: if_splits)

lemma run_steps_append:
  "run_steps db done s = (Inr u, s1) \<Longrightarrow> run_steps db (done @ rest) s = run_steps db rest s1"
proof (induction "done" arbitrary: s)
  case Nil
  then show ?case by simp
next
  case (Cons step "done")
  then show ?case by (auto split: prod.splits sum.splits)
qed

lemma run_steps_Inr:
  "run_steps db done s = (Inr u, s1) \<Longrightarrow> uncommitted s = [] \<Longrightarrow>
   uncommitted s1 = [] \<and> logged s1 = logged s @ map (\<lambda>st. Calculating (fst st)) done \<and>
   (\<exists>written. KPI_RESULTS s1 = KPI_RESULTS s @ written)"
proof (induction "done" arbitrary: s)
  case Nil
  then show ?case by simp
next
  case (Cons step "done")
  from Cons.prems(1) obtain s' where
    a: "call_and_commit db step s = (Inr (), s')" and b: "run_steps db done s' = (Inr u, s1)"
    by (auto split: prod.splits sum.splits)
  note c = call_and_commit_Inr [OF a]
  from Cons.IH [OF b] c have
    "uncommitted s1 = [] \<and> logged s1 = logged s' @ map (\<lambda>st. Calculating (fst st)) done \<and>
     (\<exists>written. KPI_RESULTS s1 = KPI_RESULTS s' @ written)"
    by simp
  then show ?case using c by auto
qed


lemma calculate_fails:
  assumes steps: "kpi_steps start end_d top_n = done @ step # rest"
    and before: "run_steps db done s = (Inr (), s1)"
    and fails: "call_and_commit db step s1 = (Inl e, s2)"
    and conn: "connects db" and fresh: "uncommitted s = []"
  shows "calculate_all_kpis db now (Some start) (Some end_d) top_n s =
           (Inl e, s1\<lparr>logged := logged s1 @ [Calculating (fst step), ErrorCalculating]\<rparr>)"
proof -
  have u1: "uncommitted s1 = []" using run_steps_Inr [OF before fresh] by simp
  have "run_steps db (done @ step # rest) s = run_steps db (step # rest) s1"
    using before by (rule run_steps_append)
  then have r: "run_steps db (kpi_steps start end_d top_n) s = (Inl e, s2)"
    using fails steps by simp
  have "s2\<lparr>logged := logged s2 @ [ErrorCalculating], uncommitted := []\<rparr> =
        s1\<lparr>logged := logged s1 @ [Calculating (fst step), ErrorCalculating]\<rparr>"
    using call_and_commit_Inl [OF fails] u1 by simp
  then show ?thesis using r conn by (simp add: calculate_all_kpis_def)
qed

text \<open>
  C8. Every family that succeeds is committed by itself: after it nothing is uncommitted
  and its writes are in \<open>KPI_RESULTS\<close>. When the families before one have been computed
  and that one fails (its procedure or its commit raises), \<open>calculate_all_kpis\<close> raises
  the error and leaves the session as it was after the families before: what they
  committed stays, the writes of the failing family are rolled back, and the log shows
  that no later family was started. The pipeline then ends in \<open>Failed\<close>.
\<close>

theorem failing_family_rolls_back_alone:
  assumes steps: "kpi_steps start end_d top_n = done @ step # rest"
    and before: "run_steps db done s = (Inr (), s1)"
    and fails: "call_and_commit db step s1 = (Inl e, s2)"
    and conn: "connects db" and fresh: "uncommitted s = []"
  shows "calculate_all_kpis db now (Some start) (Some end_d) top_n s =
           (Inl e, s1\<lparr>logged := logged s1 @ [Calculating (fst step), ErrorCalculating]\<rparr>) \<and>
         uncommitted s1 = [] \<and>
         logged s1 = logged s @ map (\<lambda>st. Calculating (fst st)) done \<and>
         (\<exists>written. KPI_RESULTS s1 = KPI_RESULTS s @ written) \<and>
         (\<forall>st t t' u. call_and_commit db st t = (Inr u, t') \<longrightarrow>
             uncommitted t' = [] \<and>
             KPI_RESULTS t' = KPI_RESULTS t @ uncommitted t @
               fst (callproc db (fst st) (snd st) (KPI_RESULTS t @ uncommitted t))) \<and>
         (\<forall>st argv s0.
             and_then (if 1 < length argv then load_stage st (argv ! 1) s0 else (Inr (), s0))
                      (validate_all st) = (Inr (), s) \<and>
             start = now - days30 \<and> end_d = now \<and> top_n = 10
             \<longrightarrow> fst (main st db now argv s0) = Failed)"
proof -
  note calc = calculate_fails [OF steps before fails conn fresh, of now]
  have main_fails: "fst (main st db now argv s0) = Failed"
    if "and_then (if 1 < length argv then load_stage st (argv ! 1) s0 else (Inr (), s0))
                      (validate_all st) = (Inr (), s) \<and>
             start = now - days30 \<and> end_d = now \<and> top_n = 10" for st argv s0
    using that calc by (simp add: main_def and_then_def)
  have commits: "uncommitted t' = [] \<and>
             KPI_RESULTS t' = KPI_RESULTS t @ uncommitted t @
               fst (callproc db (fst st) (snd st) (KPI_RESULTS t @ uncommitted t))"
    if "call_and_commit db st t = (Inr u, t')" for st t t' u
    using call_and_commit_Inr [OF that] by simp
  from calc run_steps_Inr [OF before fresh] main_fails commits show ?thesis by blast
qed

theorem failing_family_rolls_back_alone_witness:
  "kpi_steps (0 - days30) 0 10 =
     [(CALC_REVENUE_BY_REGION, [0 - days30, 0]), (CALC_MONTHLY_REVENUE_TREND, [0 - days30, 0])]
     @ (CALC_TOP_CUSTOMERS, [0 - days30, 0, 10])
     # [(CALC_PRODUCT_PERFORMANCE, [0 - days30, 0]), (CALC_AVG_TRANSACTION_VALUE, [0 - days30, 0])] \<and>
   connects failing_third \<and> uncommitted session0 = [] \<and>
   calculate_all_kpis failing_third 0 (Some (0 - days30)) (Some 0) 10 session0 =
     (Inl DatabaseError,
      \<lparr>KPI_RESULTS = [kpi_row_of CALC_REVENUE_BY_REGION, kpi_row_of CALC_MONTHLY_REVENUE_TREND],
       uncommitted = [],
       logged = [Calculating CALC_REVENUE_BY_REGION, Calculating CALC_MONTHLY_REVENUE_TREND,
                 Calculating CALC_TOP_CUSTOMERS, ErrorCalculating]\<rparr>) \<and>
   fst (main idle_stages failing_third 0 [''main.py''] session0) = Failed"
proof -
  let ?done = "[(CALC_REVENUE_BY_REGION, [0 - days30, 0]),
                (CALC_MONTHLY_REVENUE_TREND, [0 - days30, 0])]"
  let ?step = "(CALC_TOP_CUSTOMERS, [0 - days30, 0, 10])"
  let ?rest = "[(CALC_PRODUCT_PERFORMANCE, [0 - days30, 0]),
                (CALC_AVG_TRANSACTION_VALUE, [0 - days30, 0])]"
  let ?s1 = "\<lparr>KPI_RESULTS = [kpi_row_of CALC_REVENUE_BY_REGION,
                               kpi_row_of CALC_MONTHLY_REVENUE_TREND],
              uncommitted = [],
              logged = [Calculating CALC_REVENUE_BY_REGION,
                        Calculating CALC_MONTHLY_REVENUE_TREND]\<rparr>"
  let ?s2 = "\<lparr>KPI_RESULTS = [kpi_row_of CALC_REVENUE_BY_REGION,
                               kpi_row_of CALC_MONTHLY_REVENUE_TREND],
              uncommitted = [kpi_row_of CALC_TOP_CUSTOMERS],
              logged = [Calculating CALC_REVENUE_BY_REGION,
                        Calculating CALC_MONTHLY_REVENUE_TREND,
                        Calculating CALC_TOP_CUSTOMERS]\<rparr>"
  have steps: "kpi_steps (0 - days30) 0 10 = ?done @ ?step # ?rest"
    by (simp add: kpi_steps_def)
  have before: "run_steps failing_third ?done session0 = (Inr (), ?s1)"
    by (simp add: call_and_commit_def failing_third_def session0_def)
  have fails: "call_and_commit failing_third ?step ?s1 = (Inl DatabaseError, ?s2)"
    by (simp add: call_and_commit_def failing_third_def)
  have conn: "connects failing_third" by (simp add: failing_third_def)
  have fresh: "uncommitted session0 = []" by (simp add: session0_def)
  have idle: "and_then (if 1 < length [''main.py''] then load_stage idle_stages ([''main.py''] ! 1) session0
                        else (Inr (), session0))
                       (validate_all idle_stages) = (Inr (), session0)"
    by (simp add: and_then_def idle_stages_def)
  from failing_family_rolls_back_alone [OF steps before fails conn fresh, of 0] idle
  have "calculate_all_kpis failing_third 0 (Some (0 - days30)) (Some 0) 10 session0 =
          (Inl DatabaseError, ?s1\<lparr>logged := logged ?s1 @ [Calculating (fst ?step), ErrorCalculating]\<rparr>)"
    and "fst (main idle_stages failing_third 0 [''main.py''] session0) = Failed"
    by simp_all
  then show ?thesis using steps conn fresh by simp
qed

end
